theory Spec2Isabelle
  imports Main "HOL-Library.Word" "HOL-Library.Code_Target_Nat"
begin

unbundle bit_operations_syntax

section \<open>Python values, exceptions and byte slices\<close>

text \<open>
  The decoders of \<^verbatim>\<open>bonsai/active_directory/acl.py\<close> take one argument that must be
  a \<^verbatim>\<open>bytes\<close> object. The argument is modelled as a small universe of Python values, of
  which only \<open>PyBytes\<close> passes \<^verbatim>\<open>isinstance(data, bytes)\<close>. A raised exception is a
  value of \<open>exc\<close>: its class and its message. \<open>StructError\<close> is \<^verbatim>\<open>struct.error\<close>;
  \<open>OtherError\<close> carries the class name of any other exception, which only a collaborator
  can raise.
\<close>

type_synonym byte = "8 word"

datatype pyobj =
    PyNone
  | PyInt int
  | PyStr string
  | PyByteArray "byte list"
  | PyBytes "byte list"

datatype exc =
    TypeError string
  | ValueError string
  | StructError string
  | OtherError string string

definition bind_exc :: "exc + 'a \<Rightarrow> ('a \<Rightarrow> exc + 'b) \<Rightarrow> exc + 'b" where
  "bind_exc m f = (case m of Inl e \<Rightarrow> Inl e | Inr v \<Rightarrow> f v)"

text \<open>\<^verbatim>\<open>xs[i:j]\<close> for non-negative \<open>i\<close>, \<open>j\<close>: clipped at the end, empty when \<open>j \<le> i\<close>.\<close>

definition slice :: "nat \<Rightarrow> nat \<Rightarrow> 'a list \<Rightarrow> 'a list" where
  "slice i j xs = take (j - i) (drop i xs)"

text \<open>\<^verbatim>\<open>str(n)\<close> for a non-negative integer.\<close>

definition digit_char :: "nat \<Rightarrow> char" where
  "digit_char d = ''0123456789'' ! d"

function str_nat :: "nat \<Rightarrow> string" where
  "str_nat n = (if n < 10 then [digit_char n] else str_nat (n div 10) @ [digit_char (n mod 10)])"
  by pat_completeness auto
termination
  by (relation "measure (\<lambda>n. n)") auto

declare str_nat.simps [simp del]

subsection \<open>\<^verbatim>\<open>struct.unpack\<close>\<close>

definition int_from_le :: "byte list \<Rightarrow> nat" where
  "int_from_le bs = foldr (\<lambda>b n. unat b + 256 * n) bs 0"

definition int_from_be :: "byte list \<Rightarrow> nat" where
  "int_from_be bs = foldl (\<lambda>n b. 256 * n + unat b) 0 bs"

text \<open>\<^verbatim>\<open>struct.error\<close> of a buffer whose length is not the format's size.\<close>

definition struct_error :: "nat \<Rightarrow> exc" where
  "struct_error n = StructError (''unpack requires a buffer of '' @ str_nat n @ '' bytes'')"

text \<open>Format \<^verbatim>\<open><BBH\<close>.\<close>

definition unpack_BBH :: "byte list \<Rightarrow> exc + (nat \<times> nat \<times> nat)" where
  "unpack_BBH b =
     (if length b \<noteq> 4 then Inl (struct_error 4)
      else Inr (unat (b ! 0), unat (b ! 1), int_from_le (slice 2 4 b)))"

text \<open>Format \<^verbatim>\<open>>L\<close>.\<close>

definition unpack_L_be :: "byte list \<Rightarrow> exc + nat" where
  "unpack_L_be b = (if length b \<noteq> 4 then Inl (struct_error 4) else Inr (int_from_be b))"

text \<open>Format \<^verbatim>\<open><I\<close>.\<close>

definition unpack_I_le :: "byte list \<Rightarrow> exc + nat" where
  "unpack_I_le b = (if length b \<noteq> 4 then Inl (struct_error 4) else Inr (int_from_le b))"

text \<open>Format \<^verbatim>\<open><BBHHH\<close>.\<close>

definition unpack_BBHHH :: "byte list \<Rightarrow> exc + (nat \<times> nat \<times> nat \<times> nat \<times> nat)" where
  "unpack_BBHHH b =
     (if length b \<noteq> 8 then Inl (struct_error 8)
      else Inr (unat (b ! 0), unat (b ! 1), int_from_le (slice 2 4 b),
                int_from_le (slice 4 6 b), int_from_le (slice 6 8 b)))"

section \<open>Enumerations\<close>

datatype ACEFlag =
    OBJECT_INHERIT
  | CONTAINER_INHERIT
  | NO_PROPAGATE_INHERIT
  | INHERIT_ONLY
  | INHERITED
  | SUCCESSFUL_ACCESS
  | FAILED_ACCESS

fun ACEFlag_value :: "ACEFlag \<Rightarrow> nat" where
  "ACEFlag_value OBJECT_INHERIT = 0x01"
| "ACEFlag_value CONTAINER_INHERIT = 0x02"
| "ACEFlag_value NO_PROPAGATE_INHERIT = 0x04"
| "ACEFlag_value INHERIT_ONLY = 0x08"
| "ACEFlag_value INHERITED = 0x10"
| "ACEFlag_value SUCCESSFUL_ACCESS = 0x40"
| "ACEFlag_value FAILED_ACCESS = 0x80"

definition ACEFlag_members :: "ACEFlag list" where
  "ACEFlag_members =
     [OBJECT_INHERIT, CONTAINER_INHERIT, NO_PROPAGATE_INHERIT, INHERIT_ONLY, INHERITED,
      SUCCESSFUL_ACCESS, FAILED_ACCESS]"

datatype ACEType =
    ACCESS_ALLOWED
  | ACCESS_DENIED
  | SYSTEM_AUDIT
  | SYSTEM_ALARM
  | ACCESS_ALLOWED_COMPOUND
  | ACCESS_ALLOWED_OBJECT
  | ACCESS_DENIED_OBJECT
  | SYSTEM_AUDIT_OBJECT
  | SYSTEM_ALARM_OBJECT
  | ACCESS_ALLOWED_CALLBACK
  | ACCESS_DENIED_CALLBACK
  | ACCESS_ALLOWED_CALLBACK_OBJECT
  | ACCESS_DENIED_CALLBACK_OBJECT
  | SYSTEM_AUDIT_CALLBACK
  | SYSTEM_ALARM_CALLBACK
  | SYSTEM_AUDIT_CALLBACK_OBJECT
  | SYSTEM_ALARM_CALLBACK_OBJECT
  | SYSTEM_MANDATORY_LABEL
  | SYSTEM_RESOURCE_ATTRIBUTE
  | SYSTEM_SCOPED_POLICY_ID

fun ACEType_value :: "ACEType \<Rightarrow> nat" where
  "ACEType_value ACCESS_ALLOWED = 0"
| "ACEType_value ACCESS_DENIED = 1"
| "ACEType_value SYSTEM_AUDIT = 2"
| "ACEType_value SYSTEM_ALARM = 3"
| "ACEType_value ACCESS_ALLOWED_COMPOUND = 4"
| "ACEType_value ACCESS_ALLOWED_OBJECT = 5"
| "ACEType_value ACCESS_DENIED_OBJECT = 6"
| "ACEType_value SYSTEM_AUDIT_OBJECT = 7"
| "ACEType_value SYSTEM_ALARM_OBJECT = 8"
| "ACEType_value ACCESS_ALLOWED_CALLBACK = 9"
| "ACEType_value ACCESS_DENIED_CALLBACK = 10"
| "ACEType_value ACCESS_ALLOWED_CALLBACK_OBJECT = 11"
| "ACEType_value ACCESS_DENIED_CALLBACK_OBJECT = 12"
| "ACEType_value SYSTEM_AUDIT_CALLBACK = 13"
| "ACEType_value SYSTEM_ALARM_CALLBACK = 14"
| "ACEType_value SYSTEM_AUDIT_CALLBACK_OBJECT = 15"
| "ACEType_value SYSTEM_ALARM_CALLBACK_OBJECT = 16"
| "ACEType_value SYSTEM_MANDATORY_LABEL = 17"
| "ACEType_value SYSTEM_RESOURCE_ATTRIBUTE = 18"
| "ACEType_value SYSTEM_SCOPED_POLICY_ID = 19"

definition ACEType_members :: "ACEType list" where
  "ACEType_members =
     [ACCESS_ALLOWED, ACCESS_DENIED, SYSTEM_AUDIT, SYSTEM_ALARM, ACCESS_ALLOWED_COMPOUND,
      ACCESS_ALLOWED_OBJECT, ACCESS_DENIED_OBJECT, SYSTEM_AUDIT_OBJECT, SYSTEM_ALARM_OBJECT,
      ACCESS_ALLOWED_CALLBACK, ACCESS_DENIED_CALLBACK, ACCESS_ALLOWED_CALLBACK_OBJECT,
      ACCESS_DENIED_CALLBACK_OBJECT, SYSTEM_AUDIT_CALLBACK, SYSTEM_ALARM_CALLBACK,
      SYSTEM_AUDIT_CALLBACK_OBJECT, SYSTEM_ALARM_CALLBACK_OBJECT, SYSTEM_MANDATORY_LABEL,
      SYSTEM_RESOURCE_ATTRIBUTE, SYSTEM_SCOPED_POLICY_ID]"

text \<open>The enum call \<^verbatim>\<open>ACEType(n)\<close>: the member of that value, or \<^verbatim>\<open>ValueError\<close>.\<close>

definition ACEType_of :: "nat \<Rightarrow> exc + ACEType" where
  "ACEType_of n =
     (case find (\<lambda>t. ACEType_value t = n) ACEType_members of
        Some t \<Rightarrow> Inr t
      | None \<Rightarrow> Inl (ValueError (str_nat n @ '' is not a valid ACEType'')))"

datatype ACERight =
    GENERIC_READ
  | GENERIC_WRITE
  | GENERIC_EXECUTE
  | GENERIC_ALL
  | MAXIMUM_ALLOWED
  | ACCESS_SYSTEM_SECURITY
  | SYNCHRONIZE
  | WRITE_OWNER
  | WRITE_DACL
  | READ_CONTROL
  | DELETE
  | DS_CONTROL_ACCESS
  | DS_CREATE_CHILD
  | DS_DELETE_CHILD
  | ACTRL_DS_LIST
  | DS_SELF
  | DS_READ_PROP
  | DS_WRITE_PROP
  | DS_DELETE_TREE
  | DS_LIST_OBJECT

fun ACERight_value :: "ACERight \<Rightarrow> int" where
  "ACERight_value GENERIC_READ = 0x80000000"
| "ACERight_value GENERIC_WRITE = 0x4000000"
| "ACERight_value GENERIC_EXECUTE = 0x20000000"
| "ACERight_value GENERIC_ALL = 0x10000000"
| "ACERight_value MAXIMUM_ALLOWED = 0x02000000"
| "ACERight_value ACCESS_SYSTEM_SECURITY = 0x01000000"
| "ACERight_value SYNCHRONIZE = 0x00100000"
| "ACERight_value WRITE_OWNER = 0x00080000"
| "ACERight_value WRITE_DACL = 0x00040000"
| "ACERight_value READ_CONTROL = 0x00020000"
| "ACERight_value DELETE = 0x00010000"
| "ACERight_value DS_CONTROL_ACCESS = 0x00000100"
| "ACERight_value DS_CREATE_CHILD = 0x00000001"
| "ACERight_value DS_DELETE_CHILD = 0x00000002"
| "ACERight_value ACTRL_DS_LIST = 0x00000004"
| "ACERight_value DS_SELF = 0x00000008"
| "ACERight_value DS_READ_PROP = 0x00000010"
| "ACERight_value DS_WRITE_PROP = 0x00000020"
| "ACERight_value DS_DELETE_TREE = 0x00000040"
| "ACERight_value DS_LIST_OBJECT = 0x00000080"

definition ACERight_members :: "ACERight list" where
  "ACERight_members =
     [GENERIC_READ, GENERIC_WRITE, GENERIC_EXECUTE, GENERIC_ALL, MAXIMUM_ALLOWED,
      ACCESS_SYSTEM_SECURITY, SYNCHRONIZE, WRITE_OWNER, WRITE_DACL, READ_CONTROL, DELETE,
      DS_CONTROL_ACCESS, DS_CREATE_CHILD, DS_DELETE_CHILD, ACTRL_DS_LIST, DS_SELF,
      DS_READ_PROP, DS_WRITE_PROP, DS_DELETE_TREE, DS_LIST_OBJECT]"

datatype ACLRevision = ACL_REVISION | ACL_REVISION_DS

fun ACLRevision_value :: "ACLRevision \<Rightarrow> nat" where
  "ACLRevision_value ACL_REVISION = 0x02"
| "ACLRevision_value ACL_REVISION_DS = 0x04"

definition ACLRevision_members :: "ACLRevision list" where
  "ACLRevision_members = [ACL_REVISION, ACL_REVISION_DS]"

text \<open>The enum call \<^verbatim>\<open>ACLRevision(n)\<close>.\<close>

definition ACLRevision_of :: "nat \<Rightarrow> exc + ACLRevision" where
  "ACLRevision_of n =
     (case find (\<lambda>r. ACLRevision_value r = n) ACLRevision_members of
        Some r \<Rightarrow> Inr r
      | None \<Rightarrow> Inl (ValueError (str_nat n @ '' is not a valid ACLRevision'')))"

section \<open>Collaborators: UUID and SID\<close>

text \<open>
  \<^verbatim>\<open>uuid.UUID(bytes_le=b)\<close> of the standard library: \<^verbatim>\<open>ValueError\<close> unless \<open>b\<close> has
  16 bytes; the first three fields are byte-swapped and the 128-bit integer is read
  big-endian.
\<close>

datatype UUID = UUID (uuid_int: nat)

definition UUID_bytes_le :: "byte list \<Rightarrow> exc + UUID" where
  "UUID_bytes_le b =
     (if length b \<noteq> 16 then Inl (ValueError ''bytes_le is not a 16-char string'')
      else Inr (UUID (int_from_be
                  (rev (slice 0 4 b) @ rev (slice 4 6 b) @ rev (slice 6 8 b) @ drop 8 b))))"

text \<open>
  The trustee class \<^verbatim>\<open>SID\<close> lives in \<^verbatim>\<open>bonsai/active_directory/sid.py\<close>. The ACE decoder
  calls its constructor \<^verbatim>\<open>SID(bytes_le=...)\<close> and reads \<^verbatim>\<open>subauthorities\<close> of the result.
  The decoders below take the constructor as the parameter \<open>S\<close>, so every general theorem
  holds for any behaviour of it.
\<close>

record SID =
  revision :: nat
  identifier_authority :: nat
  subauthorities :: "nat list"

type_synonym sid_ctor = "byte list \<Rightarrow> exc + SID"

text \<open>
  Modelled from the spec: the constructor \<^verbatim>\<open>SID(bytes_le=...)\<close> of
  \<^verbatim>\<open>bonsai/active_directory/sid.py\<close>, a Trustee Identifier built from a little-endian
  byte slice whose encoded length is an 8-byte header plus 4 bytes for each sub-element it
  declares. The header is read as revision, sub-element count and a 6-byte big-endian
  authority; bytes after the declared sub-elements are ignored; a short buffer is a
  \<^verbatim>\<open>ValueError\<close>. It instantiates \<open>S\<close> at concrete inputs only.
\<close>

fun chunks4 :: "nat \<Rightarrow> byte list \<Rightarrow> nat list" where
  "chunks4 0 b = []"
| "chunks4 (Suc n) b = int_from_le (take 4 b) # chunks4 n (drop 4 b)"

definition SID_bytes_le :: sid_ctor where
  "SID_bytes_le b =
     (if length b < 8 \<or> length b < 8 + 4 * unat (b ! 1)
      then Inl (ValueError ''Not a valid binary SID'')
      else Inr \<lparr>revision = unat (b ! 0),
                identifier_authority = int_from_be (slice 2 8 b),
                subauthorities = chunks4 (unat (b ! 1)) (drop 8 b)\<rparr>)"

section \<open>ACE\<close>

text \<open>
  The private attributes of class \<^verbatim>\<open>ACE\<close>. \<open>ace_size\<close> is \<^verbatim>\<open>__size\<close>, which
  \<^verbatim>\<open>from_binary\<close> sets to the declared size after construction. The mask is a Python
  integer; sizes and cursor positions are never negative and are naturals.
\<close>

record ACE =
  ace_type :: ACEType
  ace_flags :: "ACEFlag set"
  ace_mask :: int
  ace_trustee_sid :: SID
  ace_object_type :: "UUID option"
  ace_inherited_object_type :: "UUID option"
  ace_application_data :: "byte list option"
  ace_size :: nat

text \<open>The tuple of line 102: the types that carry the object-flags field.\<close>

definition object_types :: "ACEType list" where
  "object_types =
     [ACCESS_ALLOWED_OBJECT, ACCESS_DENIED_OBJECT, SYSTEM_AUDIT_OBJECT, SYSTEM_ALARM_OBJECT,
      ACCESS_ALLOWED_CALLBACK_OBJECT, ACCESS_DENIED_CALLBACK_OBJECT,
      SYSTEM_AUDIT_CALLBACK_OBJECT, SYSTEM_ALARM_CALLBACK_OBJECT]"

text \<open>The tuple of line 122: the types whose trailing bytes are kept.\<close>

definition application_data_types :: "ACEType list" where
  "application_data_types =
     [ACCESS_ALLOWED_CALLBACK, ACCESS_DENIED_CALLBACK, ACCESS_ALLOWED_CALLBACK_OBJECT,
      ACCESS_DENIED_CALLBACK_OBJECT, SYSTEM_AUDIT_OBJECT, SYSTEM_AUDIT_CALLBACK]"

text \<open>
  Lines 112 to 119: the object-flags field and the two optional GUIDs. The result is
  \<open>(object_type, inherited_object_type, pos)\<close>.
\<close>

definition read_guid :: "bool \<Rightarrow> byte list \<Rightarrow> nat \<Rightarrow> exc + (UUID option \<times> nat)" where
  "read_guid present data pos =
     (if present
      then bind_exc (UUID_bytes_le (slice pos (pos + 16) data)) (\<lambda>u. Inr (Some u, pos + 16))
      else Inr (None, pos))"

definition read_object_fields :: "byte list \<Rightarrow> exc + (UUID option \<times> UUID option \<times> nat)" where
  "read_object_fields data =
     bind_exc (unpack_I_le (slice 8 12 data)) (\<lambda>obj_flag.
     bind_exc (read_guid (obj_flag AND 0x00000001 \<noteq> 0) data (8 + 4)) (\<lambda>(object_type, pos).
     bind_exc (read_guid (obj_flag AND 0x00000002 \<noteq> 0) data pos) (\<lambda>(inherited_object_type, pos).
       Inr (object_type, inherited_object_type, pos))))"

text \<open>The body of the \<^verbatim>\<open>try\<close> block of \<^verbatim>\<open>ACE.from_binary\<close>, lines 94 to 141.\<close>

definition ACE_from_binary_try :: "sid_ctor \<Rightarrow> pyobj \<Rightarrow> exc + ACE" where
  "ACE_from_binary_try S obj =
     (case obj of
        PyBytes data \<Rightarrow>
          bind_exc (unpack_BBH (slice 0 4 data)) (\<lambda>(ace_type, flags, size).
          bind_exc (unpack_L_be (slice 4 8 data)) (\<lambda>mask.
          bind_exc (ACEType_of ace_type) (\<lambda>t.
          bind_exc (if t \<in> set object_types then read_object_fields data
                    else Inr (None, None, 8)) (\<lambda>(object_type, inherited_object_type, pos).
          bind_exc (S (drop pos data)) (\<lambda>trustee_sid.
            let pos = pos + (8 + length (subauthorities trustee_sid) * 4);
                application_data =
                  (if t \<in> set application_data_types then Some (slice pos size data)
                   else None)
            in Inr \<lparr>ace_type = t,
                    ace_flags = set (filter (\<lambda>flg. flags AND ACEFlag_value flg \<noteq> 0)
                                       ACEFlag_members),
                    ace_mask = int mask,
                    ace_trustee_sid = trustee_sid,
                    ace_object_type = object_type,
                    ace_inherited_object_type = inherited_object_type,
                    ace_application_data = application_data,
                    ace_size = size\<rparr>)))))
      | _ \<Rightarrow> Inl (TypeError ''The `data` parameter must be bytes''))"

text \<open>
  \<^verbatim>\<open>ACE.from_binary\<close>: the \<^verbatim>\<open>except struct.error\<close> clause turns a \<^verbatim>\<open>struct.error\<close>
  into a \<^verbatim>\<open>ValueError\<close>; every other exception leaves the method as it is.
\<close>

definition ACE_from_binary :: "sid_ctor \<Rightarrow> pyobj \<Rightarrow> exc + ACE" where
  "ACE_from_binary S obj =
     (case ACE_from_binary_try S obj of
        Inl (StructError err) \<Rightarrow> Inl (ValueError (''Not a valid binary ACE, '' @ err))
      | r \<Rightarrow> r)"

text \<open>The property \<^verbatim>\<open>ACE.rights\<close>, line 163.\<close>

definition rights :: "ACE \<Rightarrow> ACERight set" where
  "rights ace = set (filter (\<lambda>rgt. ace_mask ace AND ACERight_value rgt \<noteq> 0) ACERight_members)"

section \<open>ACL\<close>

record ACL =
  acl_revision :: ACLRevision
  acl_sbz1 :: nat
  acl_sbz2 :: nat
  acl_aces :: "ACE list"
  acl_size :: nat

text \<open>
  The \<^verbatim>\<open>for _ in range(count)\<close> loop of lines 200 to 203, with the cursor
  \<^verbatim>\<open>start_pos\<close> and the list \<^verbatim>\<open>aces\<close> as accumulators. It returns both, or the exception
  of the first failing \<^verbatim>\<open>ACE.from_binary\<close> call.
\<close>

fun ace_loop :: "sid_ctor \<Rightarrow> byte list \<Rightarrow> nat \<Rightarrow> nat \<Rightarrow> ACE list \<Rightarrow> exc + (ACE list \<times> nat)" where
  "ace_loop S data 0 start_pos aces = Inr (aces, start_pos)"
| "ace_loop S data (Suc n) start_pos aces =
     bind_exc (ACE_from_binary S (PyBytes (drop start_pos data))) (\<lambda>ace.
       ace_loop S data n (start_pos + ace_size ace) (aces @ [ace]))"

text \<open>The body of the \<^verbatim>\<open>try\<close> block of \<^verbatim>\<open>ACL.from_binary\<close>, lines 195 to 206.\<close>

definition ACL_from_binary_try :: "sid_ctor \<Rightarrow> pyobj \<Rightarrow> exc + ACL" where
  "ACL_from_binary_try S obj =
     (case obj of
        PyBytes data \<Rightarrow>
          bind_exc (unpack_BBHHH (slice 0 8 data)) (\<lambda>(rev, sbz1, size, count, sbz2).
          bind_exc (ace_loop S data count 8 []) (\<lambda>(aces, start_pos).
          bind_exc (ACLRevision_of rev) (\<lambda>revision.
            Inr \<lparr>acl_revision = revision, acl_sbz1 = sbz1, acl_sbz2 = sbz2,
                 acl_aces = aces, acl_size = size\<rparr>)))
      | _ \<Rightarrow> Inl (TypeError ''The `data` parameter must be bytes''))"

definition ACL_from_binary :: "sid_ctor \<Rightarrow> pyobj \<Rightarrow> exc + ACL" where
  "ACL_from_binary S obj =
     (case ACL_from_binary_try S obj of
        Inl (StructError err) \<Rightarrow> Inl (ValueError (''Not a valid binary ACL, '' @ err))
      | r \<Rightarrow> r)"

section \<open>Basic facts about the reads\<close>


lemma struct_error_4: "struct_error 4 = StructError ''unpack requires a buffer of 4 bytes''"
  by (simp add: struct_error_def str_nat.simps digit_char_def)

lemma struct_error_8: "struct_error 8 = StructError ''unpack requires a buffer of 8 bytes''"
  by (simp add: struct_error_def str_nat.simps digit_char_def)

lemma length_slice: "length (slice i j xs) = min (j - i) (length xs - i)"
  by (simp add: slice_def)

lemma list4: "4 \<le> length xs \<Longrightarrow> \<exists>a b c d r. xs = a # b # c # d # r"
  by (simp add: numeral_eq_Suc Suc_le_length_iff) blast

lemma list8: "8 \<le> length xs \<Longrightarrow> \<exists>a b c d e f g h r. xs = a # b # c # d # e # f # g # h # r"
  by (simp add: numeral_eq_Suc Suc_le_length_iff) blast

lemma unpack_BBH_slice:
  "unpack_BBH (slice 0 4 data) =
     (if length data < 4 then Inl (struct_error 4)
      else Inr (unat (data ! 0), unat (data ! 1), unat (data ! 2) + 256 * unat (data ! 3)))"
proof (cases "length data < 4")
  case True
  then show ?thesis by (simp add: unpack_BBH_def length_slice)
next
  case False
  then obtain a b c d r where "data = a # b # c # d # r"
    using list4 [of data] by auto
  then show ?thesis
    by (simp add: unpack_BBH_def slice_def int_from_le_def)
qed

lemma unpack_L_be_slice:
  "unpack_L_be (slice 4 8 data) =
     (if length data < 8 then Inl (struct_error 4)
      else Inr (unat (data ! 4) * 2 ^ 24 + unat (data ! 5) * 2 ^ 16 + unat (data ! 6) * 2 ^ 8
                + unat (data ! 7)))"
proof (cases "length data < 8")
  case True
  then show ?thesis by (auto simp add: unpack_L_be_def length_slice)
next
  case False
  then obtain a b c d e f g h r where "data = a # b # c # d # e # f # g # h # r"
    using list8 [of data] by auto
  then show ?thesis
    by (simp add: unpack_L_be_def slice_def int_from_be_def)
qed


lemma ACEType_of_value: "ACEType_of (ACEType_value t) = Inr t"
  by (cases t) (simp_all add: ACEType_of_def ACEType_members_def)

lemma ACEType_of_Inr: "ACEType_of n = Inr t \<Longrightarrow> ACEType_value t = n"
  by (auto simp: ACEType_of_def split: option.splits dest: find_Some_iff [THEN iffD1])

lemma ACEType_of_unknown:
  "\<forall>t. ACEType_value t \<noteq> n \<Longrightarrow>
     ACEType_of n = Inl (ValueError (str_nat n @ '' is not a valid ACEType''))"
  by (simp add: ACEType_of_def ACEType_members_def)

lemma ACEFlag_members_all: "set ACEFlag_members = UNIV"
proof -
  have "f \<in> set ACEFlag_members" for f
    by (cases f) (simp_all add: ACEFlag_members_def)
  then show ?thesis by blast
qed

lemma ACE_from_binary_try_bytes:
  "ACE_from_binary_try S (PyBytes data) =
     (if length data < 8 then Inl (struct_error 4)
      else
        bind_exc (ACEType_of (unat (data ! 0))) (\<lambda>t.
        bind_exc (if t \<in> set object_types then read_object_fields data
                  else Inr (None, None, 8)) (\<lambda>(object_type, inherited_object_type, pos).
        bind_exc (S (drop pos data)) (\<lambda>trustee_sid.
          Inr \<lparr>ace_type = t,
               ace_flags = {flg. unat (data ! 1) AND ACEFlag_value flg \<noteq> 0},
               ace_mask = int (unat (data ! 4) * 2 ^ 24 + unat (data ! 5) * 2 ^ 16
                               + unat (data ! 6) * 2 ^ 8 + unat (data ! 7)),
               ace_trustee_sid = trustee_sid,
               ace_object_type = object_type,
               ace_inherited_object_type = inherited_object_type,
               ace_application_data =
                 (if t \<in> set application_data_types
                  then Some (slice (pos + (8 + length (subauthorities trustee_sid) * 4))
                               (unat (data ! 2) + 256 * unat (data ! 3)) data)
                  else None),
               ace_size = unat (data ! 2) + 256 * unat (data ! 3)\<rparr>))))"
  unfolding ACE_from_binary_try_def pyobj.case unpack_BBH_slice unpack_L_be_slice
  by (simp add: bind_exc_def ACEFlag_members_all Let_def split: sum.splits prod.splits)



lemma and_1_bit: "(n :: nat) AND 0x00000001 \<noteq> 0 \<longleftrightarrow> bit n 0"
  by (simp add: and_one_eq bit_0 mod_2_eq_odd)

lemma and_2_bit: "(n :: nat) AND 0x00000002 \<noteq> 0 \<longleftrightarrow> bit n 1"
  using bit_iff_and_push_bit_not_eq_0 [of n 1] by simp

lemma unpack_I_le_slice:
  "unpack_I_le (slice 8 12 data) =
     (if length data < 12 then Inl (struct_error 4)
      else Inr (unat (data ! 8) + 256 * (unat (data ! 9) + 256 * (unat (data ! 10)
                + 256 * unat (data ! 11)))))"
proof (cases "length data < 12")
  case True
  then show ?thesis by (auto simp add: unpack_I_le_def length_slice)
next
  case False
  then have "4 \<le> length (drop 8 data)" by simp
  then obtain a b c d r where d: "drop 8 data = a # b # c # d # r"
    using list4 by blast
  have "data ! (8 + k) = drop 8 data ! k" for k
    using False by simp
  from this [of 0] this [of 1] this [of 2] this [of 3]
  have "data ! 8 = a" "data ! 9 = b" "data ! 10 = c" "data ! 11 = d"
    by (simp_all add: d)
  with False show ?thesis
    by (simp add: unpack_I_le_def slice_def int_from_le_def d)
qed

lemma read_guid_eq:
  "read_guid present data pos =
     (if present
      then (case UUID_bytes_le (slice pos (pos + 16) data) of
              Inl e \<Rightarrow> Inl e | Inr u \<Rightarrow> Inr (Some u, pos + 16))
      else Inr (None, pos))"
  by (simp add: read_guid_def bind_exc_def)

lemma UUID_bytes_le_Inr: "UUID_bytes_le b = Inr u \<Longrightarrow> length b = 16"
  by (simp add: UUID_bytes_le_def split: if_splits)

lemma read_object_fields_Inr:
  assumes "read_object_fields data = Inr (ot, iot, pos)"
  defines "f \<equiv> unat (data ! 8) + 256 * (unat (data ! 9) + 256 * (unat (data ! 10)
                + 256 * unat (data ! 11)))"
  defines "p \<equiv> if bit f 0 then 28 else (12::nat)"
  shows "12 \<le> length data"
    and "if bit f 0 then UUID_bytes_le (slice 12 28 data) = Inr (the ot) \<and> ot \<noteq> None else ot = None"
    and "if bit f 1 then UUID_bytes_le (slice p (p + 16) data) = Inr (the iot) \<and> iot \<noteq> None else iot = None"
    and "pos = p + (if bit f 1 then 16 else 0)"
  using assms(1) unfolding f_def p_def read_object_fields_def unpack_I_le_slice read_guid_eq and_1_bit and_2_bit
  by (auto simp: bind_exc_def split: if_splits sum.splits)

lemma ACE_from_binary_Inr:
  assumes "ACE_from_binary S (PyBytes data) = Inr ace"
  obtains t ot iot pos sid where
    "8 \<le> length data"
    "ACEType_of (unat (data ! 0)) = Inr t"
    "(if t \<in> set object_types then read_object_fields data else Inr (None, None, 8))
       = Inr (ot, iot, pos)"
    "S (drop pos data) = Inr sid"
    "ace = \<lparr>ace_type = t,
            ace_flags = {flg. unat (data ! 1) AND ACEFlag_value flg \<noteq> 0},
            ace_mask = int (unat (data ! 4) * 2 ^ 24 + unat (data ! 5) * 2 ^ 16
                            + unat (data ! 6) * 2 ^ 8 + unat (data ! 7)),
            ace_trustee_sid = sid,
            ace_object_type = ot,
            ace_inherited_object_type = iot,
            ace_application_data =
              (if t \<in> set application_data_types
               then Some (slice (pos + (8 + length (subauthorities sid) * 4))
                            (unat (data ! 2) + 256 * unat (data ! 3)) data)
               else None),
            ace_size = unat (data ! 2) + 256 * unat (data ! 3)\<rparr>"
proof -
  from assms have tr: "ACE_from_binary_try S (PyBytes data) = Inr ace"
    by (simp add: ACE_from_binary_def split: sum.splits exc.splits)
  from tr have len: "8 \<le> length data"
    by (simp add: ACE_from_binary_try_bytes split: if_splits)
  with tr that show ?thesis
    by (auto simp add: ACE_from_binary_try_bytes bind_exc_def
          simp del: One_nat_def split: sum.splits prod.splits)
qed

text \<open>Unfolding set for evaluating the decoders on a concrete buffer.\<close>

lemmas decode_eval =
  ACE_from_binary_def ACE_from_binary_try_def ACL_from_binary_def ACL_from_binary_try_def
  bind_exc_def slice_def unpack_BBH_def unpack_L_be_def unpack_I_le_def unpack_BBHHH_def
  int_from_le_def int_from_be_def struct_error_4 struct_error_8
  ACEType_of_def ACEType_members_def object_types_def application_data_types_def
  ACEFlag_members_def ACLRevision_of_def ACLRevision_members_def
  read_object_fields_def read_guid_def UUID_bytes_le_def SID_bytes_le_def

section \<open>The claims\<close>

subsection \<open>C5: header and mask\<close>

text \<open>
  C5. A decoded ACE has its mask read big-endian from bytes 4 to 7, after a 4-byte header
  read as type (byte 0), flags (byte 1) and little-endian size (bytes 2 and 3).
\<close>

theorem C5_mask_big_endian_after_header:
  assumes "ACE_from_binary S (PyBytes data) = Inr ace"
  shows "8 \<le> length data
    \<and> ace_mask ace = int (unat (data ! 4)) * 2 ^ 24 + int (unat (data ! 5)) * 2 ^ 16
                     + int (unat (data ! 6)) * 2 ^ 8 + int (unat (data ! 7))
    \<and> ACEType_value (ace_type ace) = unat (data ! 0)
    \<and> ace_flags ace = {flg. unat (data ! 1) AND ACEFlag_value flg \<noteq> 0}
    \<and> ace_size ace = unat (data ! 2) + unat (data ! 3) * 2 ^ 8"
  using assms by (rule ACE_from_binary_Inr) (simp add: ACEType_of_Inr)

theorem C5_mask_big_endian_after_header_witness:
  "ACE_from_binary SID_bytes_le
     (PyBytes [0, 0x11, 20, 0, 0, 0x1F, 1, 0xFF, 1, 1, 0, 0, 0, 0, 0, 5, 18, 0, 0, 0])
   = Inr \<lparr>ace_type = ACCESS_ALLOWED, ace_flags = {OBJECT_INHERIT, INHERITED},
          ace_mask = 0x001F01FF,
          ace_trustee_sid = \<lparr>revision = 1, identifier_authority = 5, subauthorities = [18]\<rparr>,
          ace_object_type = None, ace_inherited_object_type = None,
          ace_application_data = None, ace_size = 20\<rparr>
   \<and> (0x001F01FF :: int) = 0 * 2 ^ 24 + 0x1F * 2 ^ 16 + 1 * 2 ^ 8 + 0xFF
   \<and> ACEType_value ACCESS_ALLOWED = 0
   \<and> (20 :: nat) = 20 + 0 * 2 ^ 8"
proof -
  have h: "ACE_from_binary SID_bytes_le
     (PyBytes [0, 0x11, 20, 0, 0, 0x1F, 1, 0xFF, 1, 1, 0, 0, 0, 0, 0, 5, 18, 0, 0, 0])
   = Inr \<lparr>ace_type = ACCESS_ALLOWED, ace_flags = {OBJECT_INHERIT, INHERITED},
          ace_mask = 0x001F01FF,
          ace_trustee_sid = \<lparr>revision = 1, identifier_authority = 5, subauthorities = [18]\<rparr>,
          ace_object_type = None, ace_inherited_object_type = None,
          ace_application_data = None, ace_size = 20\<rparr>"
    by (simp add: decode_eval)
  from C5_mask_big_endian_after_header [OF h] h show ?thesis
    by simp
qed

subsection \<open>C4: object flags and GUIDs\<close>

lemma object_types_set:
  "set object_types =
     {ACCESS_ALLOWED_OBJECT, ACCESS_DENIED_OBJECT, SYSTEM_AUDIT_OBJECT, SYSTEM_ALARM_OBJECT,
      ACCESS_ALLOWED_CALLBACK_OBJECT, ACCESS_DENIED_CALLBACK_OBJECT,
      SYSTEM_AUDIT_CALLBACK_OBJECT, SYSTEM_ALARM_CALLBACK_OBJECT}"
  by (simp add: object_types_def)

text \<open>
  C4. For a decoded ACE of one of the eight object types, the object-flags field is the
  little-endian 32-bit integer at bytes 8 to 11; \<open>object_type\<close> is present iff its bit 0
  is set and is then the GUID of bytes 12 to 27; \<open>inherited_object_type\<close> is present iff
  bit 1 is set and is then the GUID of the 16 bytes that follow; the trustee is read right
  after the GUIDs that are present. For every other type both fields are absent and the
  trustee is read at offset 8.
\<close>

theorem C4_object_guids_gated_by_flag_bits:
  assumes "ACE_from_binary S (PyBytes data) = Inr ace"
  shows "let obj_flag = unat (data ! 8) + 256 * (unat (data ! 9) + 256 * (unat (data ! 10)
                          + 256 * unat (data ! 11)));
             p = (if bit obj_flag 0 then 12 + 16 else 12);
             q = (if bit obj_flag 1 then p + 16 else p)
         in if ace_type ace \<in>
                {ACCESS_ALLOWED_OBJECT, ACCESS_DENIED_OBJECT, SYSTEM_AUDIT_OBJECT,
                 SYSTEM_ALARM_OBJECT, ACCESS_ALLOWED_CALLBACK_OBJECT,
                 ACCESS_DENIED_CALLBACK_OBJECT, SYSTEM_AUDIT_CALLBACK_OBJECT,
                 SYSTEM_ALARM_CALLBACK_OBJECT}
            then 12 \<le> length data
              \<and> (ace_object_type ace \<noteq> None \<longleftrightarrow> bit obj_flag 0)
              \<and> (ace_inherited_object_type ace \<noteq> None \<longleftrightarrow> bit obj_flag 1)
              \<and> (\<forall>u. ace_object_type ace = Some u \<longrightarrow>
                     UUID_bytes_le (slice 12 p data) = Inr u \<and> length (slice 12 p data) = 16)
              \<and> (\<forall>u. ace_inherited_object_type ace = Some u \<longrightarrow>
                     UUID_bytes_le (slice p q data) = Inr u \<and> length (slice p q data) = 16)
              \<and> S (drop q data) = Inr (ace_trustee_sid ace)
            else ace_object_type ace = None \<and> ace_inherited_object_type ace = None
              \<and> S (drop 8 data) = Inr (ace_trustee_sid ace)"
  using assms
proof (rule ACE_from_binary_Inr)
  fix t ot iot pos sid
  assume rd: "(if t \<in> set object_types then read_object_fields data else Inr (None, None, 8))
                = Inr (ot, iot, pos)"
    and sid: "S (drop pos data) = Inr sid"
    and ace: "ace = \<lparr>ace_type = t,
            ace_flags = {flg. unat (data ! 1) AND ACEFlag_value flg \<noteq> 0},
            ace_mask = int (unat (data ! 4) * 2 ^ 24 + unat (data ! 5) * 2 ^ 16
                            + unat (data ! 6) * 2 ^ 8 + unat (data ! 7)),
            ace_trustee_sid = sid,
            ace_object_type = ot,
            ace_inherited_object_type = iot,
            ace_application_data =
              (if t \<in> set application_data_types
               then Some (slice (pos + (8 + length (subauthorities sid) * 4))
                            (unat (data ! 2) + 256 * unat (data ! 3)) data)
               else None),
            ace_size = unat (data ! 2) + 256 * unat (data ! 3)\<rparr>"
  show ?thesis
  proof (cases "t \<in> set object_types")
    case True
    with rd have r: "read_object_fields data = Inr (ot, iot, pos)" by simp
    from True have ty: "ace_type ace \<in> set object_types" by (simp add: ace)
    show ?thesis
      using read_object_fields_Inr [OF r] sid ty
      unfolding object_types_set [symmetric] Let_def
      by (auto simp: ace dest: UUID_bytes_le_Inr split: if_splits)
  next
    case False
    with rd have "ot = None" "iot = None" "pos = 8" by simp_all
    with False sid show ?thesis
      unfolding object_types_set [symmetric] Let_def by (simp add: ace)
  qed
qed

theorem C4_object_guids_gated_by_flag_bits_witness:
  "ACE_from_binary SID_bytes_le
     (PyBytes [7, 0, 60, 0, 0, 0x1F, 1, 0xFF, 3, 0, 0, 0,
               1, 2, 3, 4, 5, 6, 7, 8, 9, 10, 11, 12, 13, 14, 15, 16,
               17, 18, 19, 20, 21, 22, 23, 24, 25, 26, 27, 28, 29, 30, 31, 32,
               1, 1, 0, 0, 0, 0, 0, 5, 18, 0, 0, 0, 0xAA, 0xBB, 0xCC, 0xDD])
   = Inr \<lparr>ace_type = SYSTEM_AUDIT_OBJECT, ace_flags = {}, ace_mask = 0x001F01FF,
          ace_trustee_sid = \<lparr>revision = 1, identifier_authority = 5, subauthorities = [18]\<rparr>,
          ace_object_type = Some (UUID 0x0403020106050807090A0B0C0D0E0F10),
          ace_inherited_object_type = Some (UUID 0x1413121116151817191A1B1C1D1E1F20),
          ace_application_data = Some [0xAA, 0xBB, 0xCC, 0xDD], ace_size = 60\<rparr>
   \<and> bit (3 :: nat) 0 \<and> bit (3 :: nat) 1
   \<and> UUID_bytes_le [1, 2, 3, 4, 5, 6, 7, 8, 9, 10, 11, 12, 13, 14, 15, 16]
       = Inr (UUID 0x0403020106050807090A0B0C0D0E0F10)
   \<and> UUID_bytes_le [17, 18, 19, 20, 21, 22, 23, 24, 25, 26, 27, 28, 29, 30, 31, 32]
       = Inr (UUID 0x1413121116151817191A1B1C1D1E1F20)
   \<and> SID_bytes_le [1, 1, 0, 0, 0, 0, 0, 5, 18, 0, 0, 0, 0xAA, 0xBB, 0xCC, 0xDD]
       = Inr \<lparr>revision = 1, identifier_authority = 5, subauthorities = [18]\<rparr>"
proof -
  have h: "ACE_from_binary SID_bytes_le
     (PyBytes [7, 0, 60, 0, 0, 0x1F, 1, 0xFF, 3, 0, 0, 0,
               1, 2, 3, 4, 5, 6, 7, 8, 9, 10, 11, 12, 13, 14, 15, 16,
               17, 18, 19, 20, 21, 22, 23, 24, 25, 26, 27, 28, 29, 30, 31, 32,
               1, 1, 0, 0, 0, 0, 0, 5, 18, 0, 0, 0, 0xAA, 0xBB, 0xCC, 0xDD])
   = Inr \<lparr>ace_type = SYSTEM_AUDIT_OBJECT, ace_flags = {}, ace_mask = 0x001F01FF,
          ace_trustee_sid = \<lparr>revision = 1, identifier_authority = 5, subauthorities = [18]\<rparr>,
          ace_object_type = Some (UUID 0x0403020106050807090A0B0C0D0E0F10),
          ace_inherited_object_type = Some (UUID 0x1413121116151817191A1B1C1D1E1F20),
          ace_application_data = Some [0xAA, 0xBB, 0xCC, 0xDD], ace_size = 60\<rparr>"
    by (simp add: decode_eval)
  have b: "bit (3 :: nat) 0" "bit (3 :: nat) 1"
    by (simp_all add: bit_iff_odd)
  from C4_object_guids_gated_by_flag_bits [OF h] b h show ?thesis
    by (simp add: Let_def slice_def bit_iff_odd)
qed

subsection \<open>C1: application data\<close>

lemma application_data_types_set:
  "set application_data_types =
     {ACCESS_ALLOWED_CALLBACK, ACCESS_DENIED_CALLBACK, ACCESS_ALLOWED_CALLBACK_OBJECT,
      ACCESS_DENIED_CALLBACK_OBJECT, SYSTEM_AUDIT_OBJECT, SYSTEM_AUDIT_CALLBACK}"
  by (simp add: application_data_types_def)

text \<open>
  C1, as stated, fails: a \<open>SYSTEM_ALARM_CALLBACK\<close> entry (type code 14) with four bytes
  between the trustee and its declared size decodes with no application data.
\<close>

theorem C1_alarm_callback_counterexample:
  "ACE_from_binary SID_bytes_le
     (PyBytes [14, 0, 24, 0, 0, 0x1F, 1, 0xFF, 1, 1, 0, 0, 0, 0, 0, 5, 18, 0, 0, 0,
               0xAA, 0xBB, 0xCC, 0xDD])
   = Inr \<lparr>ace_type = SYSTEM_ALARM_CALLBACK, ace_flags = {}, ace_mask = 0x001F01FF,
          ace_trustee_sid = \<lparr>revision = 1, identifier_authority = 5, subauthorities = [18]\<rparr>,
          ace_object_type = None, ace_inherited_object_type = None,
          ace_application_data = None, ace_size = 24\<rparr>"
  by (simp add: decode_eval)

text \<open>
  C1, amended. A decoded ACE carries application data exactly when its type is one of
  \<open>ACCESS_ALLOWED_CALLBACK\<close>, \<open>ACCESS_DENIED_CALLBACK\<close>,
  \<open>ACCESS_ALLOWED_CALLBACK_OBJECT\<close>, \<open>ACCESS_DENIED_CALLBACK_OBJECT\<close>,
  \<open>SYSTEM_AUDIT_OBJECT\<close> and \<open>SYSTEM_AUDIT_CALLBACK\<close>; it is then the slice of the buffer
  from the cursor after the trustee up to the declared size. For every other type,
  the three remaining callback types included, it is absent.
\<close>

theorem C1_application_data_by_type:
  assumes "ACE_from_binary S (PyBytes data) = Inr ace"
  shows "ace_application_data ace =
    (let pos = 8
           + (if ace_type ace \<in>
                   {ACCESS_ALLOWED_OBJECT, ACCESS_DENIED_OBJECT, SYSTEM_AUDIT_OBJECT,
                    SYSTEM_ALARM_OBJECT, ACCESS_ALLOWED_CALLBACK_OBJECT,
                    ACCESS_DENIED_CALLBACK_OBJECT, SYSTEM_AUDIT_CALLBACK_OBJECT,
                    SYSTEM_ALARM_CALLBACK_OBJECT} then 4 else 0)
           + (if ace_object_type ace \<noteq> None then 16 else 0)
           + (if ace_inherited_object_type ace \<noteq> None then 16 else 0)
           + 8 + 4 * length (subauthorities (ace_trustee_sid ace));
         size = unat (data ! 2) + 256 * unat (data ! 3)
     in if ace_type ace \<in>
             {ACCESS_ALLOWED_CALLBACK, ACCESS_DENIED_CALLBACK, ACCESS_ALLOWED_CALLBACK_OBJECT,
              ACCESS_DENIED_CALLBACK_OBJECT, SYSTEM_AUDIT_OBJECT, SYSTEM_AUDIT_CALLBACK}
        then Some (slice pos size data) else None)"
  using assms
proof (rule ACE_from_binary_Inr)
  fix t ot iot pos sid
  assume rd: "(if t \<in> set object_types then read_object_fields data else Inr (None, None, 8))
                = Inr (ot, iot, pos)"
    and ace: "ace = \<lparr>ace_type = t,
            ace_flags = {flg. unat (data ! 1) AND ACEFlag_value flg \<noteq> 0},
            ace_mask = int (unat (data ! 4) * 2 ^ 24 + unat (data ! 5) * 2 ^ 16
                            + unat (data ! 6) * 2 ^ 8 + unat (data ! 7)),
            ace_trustee_sid = sid,
            ace_object_type = ot,
            ace_inherited_object_type = iot,
            ace_application_data =
              (if t \<in> set application_data_types
               then Some (slice (pos + (8 + length (subauthorities sid) * 4))
                            (unat (data ! 2) + 256 * unat (data ! 3)) data)
               else None),
            ace_size = unat (data ! 2) + 256 * unat (data ! 3)\<rparr>"
  have pos: "pos = 8 + (if t \<in> set object_types then 4 else 0)
                 + (if ot \<noteq> None then 16 else 0) + (if iot \<noteq> None then 16 else 0)"
  proof (cases "t \<in> set object_types")
    case True
    with rd have r: "read_object_fields data = Inr (ot, iot, pos)" by simp
    from read_object_fields_Inr(2-4) [OF r] True show ?thesis
      by (simp split: if_splits)
  next
    case False
    with rd show ?thesis by simp
  qed
  show ?thesis
    unfolding object_types_set [symmetric] application_data_types_set [symmetric] Let_def
    by (simp add: ace pos mult.commute)
qed

theorem C1_application_data_by_type_witness:
  "ACE_from_binary SID_bytes_le
     (PyBytes [13, 0, 24, 0, 0, 0x1F, 1, 0xFF, 1, 1, 0, 0, 0, 0, 0, 5, 18, 0, 0, 0,
               0xAA, 0xBB, 0xCC, 0xDD])
   = Inr \<lparr>ace_type = SYSTEM_AUDIT_CALLBACK, ace_flags = {}, ace_mask = 0x001F01FF,
          ace_trustee_sid = \<lparr>revision = 1, identifier_authority = 5, subauthorities = [18]\<rparr>,
          ace_object_type = None, ace_inherited_object_type = None,
          ace_application_data = Some [0xAA, 0xBB, 0xCC, 0xDD], ace_size = 24\<rparr>
   \<and> Some [0xAA, 0xBB, 0xCC, 0xDD :: byte]
       = Some (slice 20 24 [13, 0, 24, 0, 0, 0x1F, 1, 0xFF, 1, 1, 0, 0, 0, 0, 0, 5, 18, 0, 0, 0,
                            0xAA, 0xBB, 0xCC, 0xDD])"
proof -
  have h: "ACE_from_binary SID_bytes_le
     (PyBytes [13, 0, 24, 0, 0, 0x1F, 1, 0xFF, 1, 1, 0, 0, 0, 0, 0, 5, 18, 0, 0, 0,
               0xAA, 0xBB, 0xCC, 0xDD])
   = Inr \<lparr>ace_type = SYSTEM_AUDIT_CALLBACK, ace_flags = {}, ace_mask = 0x001F01FF,
          ace_trustee_sid = \<lparr>revision = 1, identifier_authority = 5, subauthorities = [18]\<rparr>,
          ace_object_type = None, ace_inherited_object_type = None,
          ace_application_data = Some [0xAA, 0xBB, 0xCC, 0xDD], ace_size = 24\<rparr>"
    by (simp add: decode_eval)
  from C1_application_data_by_type [OF h] h show ?thesis
    by (simp add: Let_def)
qed

subsection \<open>C9: arguments that are not bytes\<close>

text \<open>
  C9. For an argument that is not a \<^verbatim>\<open>bytes\<close> object, \<^verbatim>\<open>ACE.from_binary\<close> and
  \<^verbatim>\<open>ACL.from_binary\<close> both raise \<^verbatim>\<open>TypeError\<close>, whatever the trustee constructor would
  do: nothing has been parsed.
\<close>

theorem C9_not_bytes_TypeError:
  assumes "\<forall>data. obj \<noteq> PyBytes data"
  shows "ACE_from_binary S obj = Inl (TypeError ''The `data` parameter must be bytes'')
       \<and> ACL_from_binary S obj = Inl (TypeError ''The `data` parameter must be bytes'')"
  using assms
  by (cases obj)
     (simp_all add: ACE_from_binary_def ACE_from_binary_try_def
        ACL_from_binary_def ACL_from_binary_try_def)

theorem C9_not_bytes_TypeError_witness:
  "(\<forall>data. PyByteArray [1, 2, 3] \<noteq> PyBytes data)
   \<and> ACE_from_binary SID_bytes_le (PyByteArray [1, 2, 3])
       = Inl (TypeError ''The `data` parameter must be bytes'')
   \<and> ACL_from_binary SID_bytes_le (PyByteArray [1, 2, 3])
       = Inl (TypeError ''The `data` parameter must be bytes'')"
proof -
  have h: "\<forall>data. PyByteArray [1, 2, 3] \<noteq> PyBytes data" by simp
  from C9_not_bytes_TypeError [OF h, of SID_bytes_le] h show ?thesis by blast
qed

subsection \<open>C7: unknown type codes\<close>

lemma ACE_from_binary_short:
  "length data < 8 \<Longrightarrow>
     ACE_from_binary S (PyBytes data)
       = Inl (ValueError ''Not a valid binary ACE, unpack requires a buffer of 4 bytes'')"
  by (simp add: ACE_from_binary_def ACE_from_binary_try_bytes struct_error_4)

text \<open>
  C7, as stated, fails: on the one-byte buffer holding the unknown type code 99 the
  header read fails first, and the error is the short-read error, which does not name
  the type code.
\<close>

theorem C7_short_buffer_counterexample:
  "ACE_from_binary SID_bytes_le (PyBytes [99])
     = Inl (ValueError ''Not a valid binary ACE, unpack requires a buffer of 4 bytes'')"
  by (simp add: decode_eval)

text \<open>
  C7, amended. For a buffer of at least 8 bytes whose first byte is not the value of any
  \<open>ACEType\<close> member, decoding fails with the \<^verbatim>\<open>ValueError\<close> that names that value; for
  a shorter buffer with such a first byte it fails with the short-read error. No ACE is
  returned in either case.
\<close>

theorem C7_unknown_type_fails:
  assumes "data \<noteq> []" and "\<forall>t. ACEType_value t \<noteq> unat (data ! 0)"
  shows "ACE_from_binary S (PyBytes data) =
     (if 8 \<le> length data
      then Inl (ValueError (str_nat (unat (data ! 0)) @ '' is not a valid ACEType''))
      else Inl (ValueError ''Not a valid binary ACE, unpack requires a buffer of 4 bytes''))"
proof (cases "8 \<le> length data")
  case True
  with ACEType_of_unknown [OF assms(2)] show ?thesis
    by (simp add: ACE_from_binary_def ACE_from_binary_try_bytes bind_exc_def)
next
  case False
  then show ?thesis by (simp add: ACE_from_binary_short)
qed

theorem C7_unknown_type_fails_witness:
  "[99, 0, 20, 0, 0, 0, 0, 1 :: byte] \<noteq> []
   \<and> (\<forall>t. ACEType_value t \<noteq> 99)
   \<and> ACE_from_binary SID_bytes_le (PyBytes [99, 0, 20, 0, 0, 0, 0, 1])
       = Inl (ValueError ''99 is not a valid ACEType'')"
proof -
  have ne: "[99, 0, 20, 0, 0, 0, 0, 1 :: byte] \<noteq> []" by simp
  have "ACEType_value t \<noteq> 99" for t by (cases t) simp_all
  then have un: "\<forall>t. ACEType_value t \<noteq> unat ([99, 0, 20, 0, 0, 0, 0, 1 :: byte] ! 0)"
    by simp
  have s: "str_nat 99 = ''99''"
    by (simp add: str_nat.simps digit_char_def)
  from C7_unknown_type_fails [OF ne un, of SID_bytes_le] un show ?thesis
    by (simp add: s)
qed

subsection \<open>C2: declared size against buffer length\<close>

lemma slice_update_before: "k < i \<Longrightarrow> slice i j (xs[k := v]) = slice i j xs"
  by (simp add: slice_def drop_update_cancel)

lemma read_guid_size_bytes:
  "4 \<le> pos \<Longrightarrow> read_guid b (data[2 := lo, 3 := hi]) pos = read_guid b data pos"
  by (simp add: read_guid_def slice_update_before)

lemma read_object_fields_size_bytes:
  "read_object_fields (data[2 := lo, 3 := hi]) = read_object_fields data"
  unfolding read_object_fields_def
  by (auto simp: slice_update_before read_guid_eq bind_exc_def split: sum.splits)

lemma ACE_from_binary_try_size_bytes:
  "ACE_from_binary_try S (PyBytes (data[2 := lo, 3 := hi])) = Inl e
     \<longleftrightarrow> ACE_from_binary_try S (PyBytes data) = Inl e"
  unfolding ACE_from_binary_try_bytes
  by (auto simp: bind_exc_def read_object_fields_size_bytes drop_update_cancel
        dest!: read_object_fields_Inr(4) split: sum.splits prod.splits if_splits)


lemma ACE_from_binary_size_bytes:
  "ACE_from_binary S (PyBytes (data[2 := lo, 3 := hi])) = Inl e
     \<longleftrightarrow> ACE_from_binary S (PyBytes data) = Inl e"
proof (cases "ACE_from_binary_try S (PyBytes data)")
  case (Inl x)
  then have "ACE_from_binary_try S (PyBytes (data[2 := lo, 3 := hi])) = Inl x"
    by (simp add: ACE_from_binary_try_size_bytes)
  with Inl show ?thesis
    by (simp add: ACE_from_binary_def)
next
  case (Inr a)
  then have "\<exists>a'. ACE_from_binary_try S (PyBytes (data[2 := lo, 3 := hi])) = Inr a'"
    by (cases "ACE_from_binary_try S (PyBytes (data[2 := lo, 3 := hi]))")
       (simp_all add: ACE_from_binary_try_size_bytes)
  with Inr show ?thesis
    by (auto simp: ACE_from_binary_def)
qed

text \<open>
  C2, as stated, fails: a 24-byte \<open>ACCESS_ALLOWED_CALLBACK\<close> entry declaring a size of
  65535 decodes, with that size and with the four bytes that are there as its
  application data.
\<close>

theorem C2_oversized_aceSize_counterexample:
  "ACE_from_binary SID_bytes_le
     (PyBytes [9, 0, 0xFF, 0xFF, 0, 0x1F, 1, 0xFF, 1, 1, 0, 0, 0, 0, 0, 5, 18, 0, 0, 0,
               0xAA, 0xBB, 0xCC, 0xDD])
   = Inr \<lparr>ace_type = ACCESS_ALLOWED_CALLBACK, ace_flags = {}, ace_mask = 0x001F01FF,
          ace_trustee_sid = \<lparr>revision = 1, identifier_authority = 5, subauthorities = [18]\<rparr>,
          ace_object_type = None, ace_inherited_object_type = None,
          ace_application_data = Some [0xAA, 0xBB, 0xCC, 0xDD], ace_size = 65535\<rparr>"
  by (simp add: decode_eval)

text \<open>
  C2, amended. \<^verbatim>\<open>ACE.from_binary\<close> never compares the declared size with the length of
  the buffer. A buffer shorter than the 8 bytes of header and mask fails with the
  malformed-structure error; whether decoding fails, and with which exception, is the same
  whatever bytes 2 and 3 hold; a decoded ACE reports the declared size as its size.
\<close>

theorem C2_declared_size_unchecked:
  "(length data < 8 \<longrightarrow>
      ACE_from_binary S (PyBytes data)
        = Inl (ValueError ''Not a valid binary ACE, unpack requires a buffer of 4 bytes''))
   \<and> (\<forall>lo hi e. ACE_from_binary S (PyBytes (data[2 := lo, 3 := hi])) = Inl e
                  \<longleftrightarrow> ACE_from_binary S (PyBytes data) = Inl e)
   \<and> (\<forall>ace. ACE_from_binary S (PyBytes data) = Inr ace \<longrightarrow>
              ace_size ace = unat (data ! 2) + 256 * unat (data ! 3))"
proof (intro conjI allI impI)
  fix ace
  assume "ACE_from_binary S (PyBytes data) = Inr ace"
  then show "ace_size ace = unat (data ! 2) + 256 * unat (data ! 3)"
    by (rule ACE_from_binary_Inr) simp
qed (simp_all add: ACE_from_binary_short ACE_from_binary_size_bytes)

theorem C2_declared_size_unchecked_witness:
  "length [9, 0, 0xFF, 0xFF, 0, 0x1F :: byte] < 8
   \<and> ACE_from_binary SID_bytes_le (PyBytes [9, 0, 0xFF, 0xFF, 0, 0x1F])
       = Inl (ValueError ''Not a valid binary ACE, unpack requires a buffer of 4 bytes'')
   \<and> ACE_from_binary SID_bytes_le
       (PyBytes [9, 0, 0xFF, 0xFF, 0, 0x1F, 1, 0xFF, 1, 1, 0, 0, 0, 0, 0, 5, 18, 0, 0, 0])
       = Inr \<lparr>ace_type = ACCESS_ALLOWED_CALLBACK, ace_flags = {}, ace_mask = 0x001F01FF,
          ace_trustee_sid = \<lparr>revision = 1, identifier_authority = 5, subauthorities = [18]\<rparr>,
          ace_object_type = None, ace_inherited_object_type = None,
          ace_application_data = Some [], ace_size = 65535\<rparr>
   \<and> (65535 :: nat) = unat (0xFF :: byte) + 256 * unat (0xFF :: byte)"
proof -
  have h: "ACE_from_binary SID_bytes_le
       (PyBytes [9, 0, 0xFF, 0xFF, 0, 0x1F, 1, 0xFF, 1, 1, 0, 0, 0, 0, 0, 5, 18, 0, 0, 0])
       = Inr \<lparr>ace_type = ACCESS_ALLOWED_CALLBACK, ace_flags = {}, ace_mask = 0x001F01FF,
          ace_trustee_sid = \<lparr>revision = 1, identifier_authority = 5, subauthorities = [18]\<rparr>,
          ace_object_type = None, ace_inherited_object_type = None,
          ace_application_data = Some [], ace_size = 65535\<rparr>"
    by (simp add: decode_eval)
  have short: "length [9, 0, 0xFF, 0xFF, 0, 0x1F :: byte] < 8" by simp
  from C2_declared_size_unchecked [of "[9, 0, 0xFF, 0xFF, 0, 0x1F]" SID_bytes_le] short
  have a: "ACE_from_binary SID_bytes_le (PyBytes [9, 0, 0xFF, 0xFF, 0, 0x1F])
       = Inl (ValueError ''Not a valid binary ACE, unpack requires a buffer of 4 bytes'')"
    by blast
  from C2_declared_size_unchecked
         [of "[9, 0, 0xFF, 0xFF, 0, 0x1F, 1, 0xFF, 1, 1, 0, 0, 0, 0, 0, 5, 18, 0, 0, 0]"
             SID_bytes_le] h
  have b: "(65535 :: nat) = unat (0xFF :: byte) + 256 * unat (0xFF :: byte)"
    by simp
  from short a h b show ?thesis by blast
qed

subsection \<open>The ACL header and loop\<close>

lemma unpack_BBHHH_slice:
  "unpack_BBHHH (slice 0 8 data) =
     (if length data < 8 then Inl (struct_error 8)
      else Inr (unat (data ! 0), unat (data ! 1), unat (data ! 2) + 256 * unat (data ! 3),
                unat (data ! 4) + 256 * unat (data ! 5), unat (data ! 6) + 256 * unat (data ! 7)))"
proof (cases "length data < 8")
  case True
  then show ?thesis by (simp add: unpack_BBHHH_def length_slice)
next
  case False
  then obtain a b c d e f g h r where "data = a # b # c # d # e # f # g # h # r"
    using list8 [of data] by auto
  then show ?thesis
    by (simp add: unpack_BBHHH_def slice_def int_from_le_def)
qed

lemma ACLRevision_of_value: "ACLRevision_of (ACLRevision_value r) = Inr r"
  by (cases r) (simp_all add: ACLRevision_of_def ACLRevision_members_def)

lemma ACE_from_binary_not_StructError:
  "ACE_from_binary S obj \<noteq> Inl (StructError m)"
  by (simp add: ACE_from_binary_def split: sum.splits exc.splits)

lemma ace_loop_not_StructError:
  "ace_loop S data n pos aces \<noteq> Inl (StructError m)"
proof (induction n arbitrary: pos aces)
  case 0
  show ?case by simp
next
  case (Suc n)
  show ?case
    using Suc.IH ACE_from_binary_not_StructError [of S "PyBytes (drop pos data)" m]
    by (cases "ACE_from_binary S (PyBytes (drop pos data))") (simp_all add: bind_exc_def)
qed

lemma ACL_from_binary_bytes:
  "ACL_from_binary S (PyBytes data) =
     (if length data < 8 then Inl (ValueError ''Not a valid binary ACL, unpack requires a buffer of 8 bytes'')
      else
        bind_exc (ace_loop S data (unat (data ! 4) + 256 * unat (data ! 5)) 8 []) (\<lambda>(aces, start_pos).
        bind_exc (ACLRevision_of (unat (data ! 0))) (\<lambda>revision.
          Inr \<lparr>acl_revision = revision, acl_sbz1 = unat (data ! 1),
               acl_sbz2 = unat (data ! 6) + 256 * unat (data ! 7),
               acl_aces = aces, acl_size = unat (data ! 2) + 256 * unat (data ! 3)\<rparr>)))"
proof (cases "length data < 8")
  case True
  then show ?thesis
    by (simp add: ACL_from_binary_def ACL_from_binary_try_def unpack_BBHHH_slice
          bind_exc_def struct_error_8)
next
  case False
  have enum: "ACLRevision_of k \<noteq> Inl (StructError m)" for k m
    by (simp add: ACLRevision_of_def split: option.splits)
  show ?thesis
  proof (cases "ace_loop S data (unat (data ! 4) + 256 * unat (data ! 5)) 8 []")
    case (Inl e)
    with False ace_loop_not_StructError [of S data _ 8 "[]"] show ?thesis
      by (cases e)
         (auto simp add: ACL_from_binary_def ACL_from_binary_try_def unpack_BBHHH_slice
            bind_exc_def)
  next
    case (Inr res)
    with False enum [of "unat (data ! 0)"] show ?thesis
      by (cases res; cases "ACLRevision_of (unat (data ! 0))")
         (auto simp add: ACL_from_binary_def ACL_from_binary_try_def unpack_BBHHH_slice
            bind_exc_def split: exc.splits)
  qed
qed


subsection \<open>C8: an ACL that declares no entries\<close>

text \<open>
  C8. A buffer of at least 8 bytes whose first byte is the value of an \<open>ACLRevision\<close>
  member and whose entry count (bytes 4 and 5) is zero decodes to an ACL with no entries;
  the loop ends with the cursor at 8, whatever follows the header.
\<close>

theorem C8_zero_count_empty_acl:
  assumes "8 \<le> length data"
    and "ACLRevision_value r = unat (data ! 0)"
    and "unat (data ! 4) + 256 * unat (data ! 5) = 0"
  shows "ACL_from_binary S (PyBytes data)
           = Inr \<lparr>acl_revision = r, acl_sbz1 = unat (data ! 1),
                  acl_sbz2 = unat (data ! 6) + 256 * unat (data ! 7),
                  acl_aces = [], acl_size = unat (data ! 2) + 256 * unat (data ! 3)\<rparr>
       \<and> ace_loop S data (unat (data ! 4) + 256 * unat (data ! 5)) 8 [] = Inr ([], 8)"
proof -
  from assms(3) have loop: "ace_loop S data (unat (data ! 4) + 256 * unat (data ! 5)) 8 []
                              = Inr ([], 8)"
    by simp
  from assms(2) have "ACLRevision_of (unat (data ! 0)) = Inr r"
    using ACLRevision_of_value [of r] by simp
  with assms(1) loop show ?thesis
    by (simp add: ACL_from_binary_bytes bind_exc_def)
qed

theorem C8_zero_count_empty_acl_witness:
  "8 \<le> length [4, 0, 8, 0, 0, 0, 0, 0, 0x77 :: byte]
   \<and> ACLRevision_value ACL_REVISION_DS = unat (4 :: byte)
   \<and> ACL_from_binary SID_bytes_le (PyBytes [4, 0, 8, 0, 0, 0, 0, 0, 0x77])
       = Inr \<lparr>acl_revision = ACL_REVISION_DS, acl_sbz1 = 0, acl_sbz2 = 0,
              acl_aces = [], acl_size = 8\<rparr>
   \<and> ace_loop SID_bytes_le [4, 0, 8, 0, 0, 0, 0, 0, 0x77] 0 8 [] = Inr ([], 8)"
proof -
  have a: "8 \<le> length [4, 0, 8, 0, 0, 0, 0, 0, 0x77 :: byte]" by simp
  have b: "ACLRevision_value ACL_REVISION_DS = unat ([4, 0, 8, 0, 0, 0, 0, 0, 0x77 :: byte] ! 0)"
    by simp
  have c: "unat ([4, 0, 8, 0, 0, 0, 0, 0, 0x77 :: byte] ! 4)
           + 256 * unat ([4, 0, 8, 0, 0, 0, 0, 0, 0x77 :: byte] ! 5) = 0"
    by simp
  from C8_zero_count_empty_acl [OF a b c, of SID_bytes_le] show ?thesis
    by simp
qed

subsection \<open>C10: entries that declare size zero\<close>

lemma ace_loop_size_zero:
  assumes "ACE_from_binary S (PyBytes (drop pos data)) = Inr ace" and "ace_size ace = 0"
  shows "ace_loop S data n pos aces = Inr (aces @ replicate n ace, pos)"
proof (induction n arbitrary: aces)
  case 0
  show ?case by simp
next
  case (Suc n)
  have "ace_loop S data (Suc n) pos aces = ace_loop S data n pos (aces @ [ace])"
    using assms by (simp add: bind_exc_def)
  also have "\<dots> = Inr ((aces @ [ace]) @ replicate n ace, pos)"
    by (rule Suc.IH)
  finally show ?case
    by (simp add: replicate_app_Cons_same)
qed

text \<open>
  C10, as stated, fails: the buffer below declares three entries, its first entry decodes
  with declared size 0, and \<^verbatim>\<open>ACL.from_binary\<close> fails, because the revision byte 0 is
  rejected after the loop.
\<close>

theorem C10_unknown_revision_counterexample:
  "ACE_from_binary SID_bytes_le
     (PyBytes (drop 8 [0, 0, 24, 0, 3, 0, 0, 0, 0, 0, 0, 0, 0, 0, 0, 1, 1, 0, 0, 0, 0, 0, 0, 5]))
     = Inr \<lparr>ace_type = ACCESS_ALLOWED, ace_flags = {}, ace_mask = 1,
          ace_trustee_sid = \<lparr>revision = 1, identifier_authority = 5, subauthorities = []\<rparr>,
          ace_object_type = None, ace_inherited_object_type = None,
          ace_application_data = None, ace_size = 0\<rparr>
   \<and> ACL_from_binary SID_bytes_le
       (PyBytes [0, 0, 24, 0, 3, 0, 0, 0, 0, 0, 0, 0, 0, 0, 0, 1, 1, 0, 0, 0, 0, 0, 0, 5])
     = Inl (ValueError ''0 is not a valid ACLRevision'')"
proof -
  let ?d = "[0, 0, 24, 0, 3, 0, 0, 0, 0, 0, 0, 0, 0, 0, 0, 1, 1, 0, 0, 0, 0, 0, 0, 5 :: byte]"
  let ?a = "\<lparr>ace_type = ACCESS_ALLOWED, ace_flags = {}, ace_mask = 1,
          ace_trustee_sid = \<lparr>revision = 1, identifier_authority = 5, subauthorities = []\<rparr>,
          ace_object_type = None, ace_inherited_object_type = None,
          ace_application_data = None, ace_size = 0\<rparr>"
  have e: "ACE_from_binary SID_bytes_le (PyBytes (drop 8 ?d)) = Inr ?a"
    by (simp add: decode_eval)
  have "ace_size ?a = 0" by simp
  from ace_loop_size_zero [OF e this, of 3 "[]"]
  have loop: "ace_loop SID_bytes_le ?d 3 8 [] = Inr (replicate 3 ?a, 8)"
    by simp
  have "ACL_from_binary SID_bytes_le (PyBytes ?d)
          = Inl (ValueError ''0 is not a valid ACLRevision'')"
    by (simp add: ACL_from_binary_bytes loop bind_exc_def ACLRevision_of_def
          ACLRevision_members_def str_nat.simps digit_char_def)
  with e show ?thesis by simp
qed

text \<open>
  C10, amended. For a buffer of at least 8 bytes whose revision byte is recognised, whose
  declared entry count is \<open>n \<ge> 1\<close> and whose first entry (the ACE decoded from offset 8)
  decodes with declared size 0, the loop makes \<open>n\<close> calls without moving the cursor from
  8, and \<^verbatim>\<open>ACL.from_binary\<close> returns an ACL whose entries are \<open>n\<close> copies of that ACE.
\<close>

theorem C10_zero_size_entries_repeat:
  assumes "8 \<le> length data"
    and "ACLRevision_value r = unat (data ! 0)"
    and "n = unat (data ! 4) + 256 * unat (data ! 5)" and "1 \<le> n"
    and "ACE_from_binary S (PyBytes (drop 8 data)) = Inr ace" and "ace_size ace = 0"
  shows "ace_loop S data n 8 [] = Inr (replicate n ace, 8)
       \<and> ACL_from_binary S (PyBytes data)
           = Inr \<lparr>acl_revision = r, acl_sbz1 = unat (data ! 1),
                  acl_sbz2 = unat (data ! 6) + 256 * unat (data ! 7),
                  acl_aces = replicate n ace,
                  acl_size = unat (data ! 2) + 256 * unat (data ! 3)\<rparr>"
proof -
  have loop: "ace_loop S data n 8 [] = Inr (replicate n ace, 8)"
    using ace_loop_size_zero [OF assms(5,6), of n "[]"] by simp
  from assms(2) have "ACLRevision_of (unat (data ! 0)) = Inr r"
    using ACLRevision_of_value [of r] by simp
  with assms(1) loop show ?thesis
    unfolding assms(3) by (simp add: ACL_from_binary_bytes bind_exc_def)
qed

theorem C10_zero_size_entries_repeat_witness:
  "ACE_from_binary SID_bytes_le
     (PyBytes (drop 8 [2, 0, 24, 0, 3, 0, 0, 0, 0, 0, 0, 0, 0, 0, 0, 1, 1, 0, 0, 0, 0, 0, 0, 5]))
     = Inr \<lparr>ace_type = ACCESS_ALLOWED, ace_flags = {}, ace_mask = 1,
          ace_trustee_sid = \<lparr>revision = 1, identifier_authority = 5, subauthorities = []\<rparr>,
          ace_object_type = None, ace_inherited_object_type = None,
          ace_application_data = None, ace_size = 0\<rparr>
   \<and> (1 :: nat) \<le> 3
   \<and> map_sum id (\<lambda>acl. (length (acl_aces acl), set (acl_aces acl)))
       (ACL_from_binary SID_bytes_le
         (PyBytes [2, 0, 24, 0, 3, 0, 0, 0, 0, 0, 0, 0, 0, 0, 0, 1, 1, 0, 0, 0, 0, 0, 0, 5]))
     = Inr (3, {\<lparr>ace_type = ACCESS_ALLOWED, ace_flags = {}, ace_mask = 1,
          ace_trustee_sid = \<lparr>revision = 1, identifier_authority = 5, subauthorities = []\<rparr>,
          ace_object_type = None, ace_inherited_object_type = None,
          ace_application_data = None, ace_size = 0\<rparr>})"
proof -
  let ?d = "[2, 0, 24, 0, 3, 0, 0, 0, 0, 0, 0, 0, 0, 0, 0, 1, 1, 0, 0, 0, 0, 0, 0, 5 :: byte]"
  let ?a = "\<lparr>ace_type = ACCESS_ALLOWED, ace_flags = {}, ace_mask = 1,
          ace_trustee_sid = \<lparr>revision = 1, identifier_authority = 5, subauthorities = []\<rparr>,
          ace_object_type = None, ace_inherited_object_type = None,
          ace_application_data = None, ace_size = 0\<rparr>"
  have a: "8 \<le> length ?d" by simp
  have b: "ACLRevision_value ACL_REVISION = unat (?d ! 0)" by simp
  have c: "3 = unat (?d ! 4) + 256 * unat (?d ! 5)" by simp
  have d: "(1 :: nat) \<le> 3" by simp
  have e: "ACE_from_binary SID_bytes_le (PyBytes (drop 8 ?d)) = Inr ?a"
    by (simp add: decode_eval)
  have f: "ace_size ?a = 0" by simp
  from C10_zero_size_entries_repeat [OF a b c d e f] e show ?thesis
    by simp
qed

subsection \<open>C3: a failing entry inside an ACL\<close>

lemma ace_loop_add:
  "ace_loop S data (k + m) pos acc =
     bind_exc (ace_loop S data k pos acc) (\<lambda>(aces, p). ace_loop S data m p aces)"
proof (induction k arbitrary: pos acc)
  case 0
  show ?case by (simp add: bind_exc_def)
next
  case (Suc k)
  show ?case
    by (cases "ACE_from_binary S (PyBytes (drop pos data))")
       (simp_all add: bind_exc_def Suc.IH)
qed

lemma ace_loop_decoded_prefix:
  assumes "\<forall>i<length aces.
             ACE_from_binary S (PyBytes (drop (pos + sum_list (map ace_size (take i aces))) data))
               = Inr (aces ! i)"
  shows "ace_loop S data (length aces) pos acc
           = Inr (acc @ aces, pos + sum_list (map ace_size aces))"
  using assms
proof (induction aces arbitrary: pos acc)
  case Nil
  show ?case by simp
next
  case (Cons a as)
  from Cons.prems [rule_format, of 0]
  have first: "ACE_from_binary S (PyBytes (drop pos data)) = Inr a"
    by simp
  have rest: "\<forall>i<length as.
      ACE_from_binary S
        (PyBytes (drop ((pos + ace_size a) + sum_list (map ace_size (take i as))) data))
        = Inr (as ! i)"
  proof (intro allI impI)
    fix i
    assume "i < length as"
    with Cons.prems [rule_format, of "Suc i"]
    show "ACE_from_binary S
        (PyBytes (drop ((pos + ace_size a) + sum_list (map ace_size (take i as))) data))
        = Inr (as ! i)"
      by (simp add: add.assoc)
  qed
  from Cons.IH [OF rest, of "acc @ [a]"] first show ?case
    by (simp add: bind_exc_def add.assoc)
qed

text \<open>
  C3, as stated, fails: the header below declares one entry and nothing follows it. The
  inner \<^verbatim>\<open>ACE.from_binary\<close> call fails on the empty slice, and \<^verbatim>\<open>ACL.from_binary\<close> fails
  with that very exception: its message speaks of a binary ACE and says nothing of the ACL.
\<close>

theorem C3_no_acl_context_counterexample:
  "ACE_from_binary SID_bytes_le (PyBytes (drop 8 [2, 0, 8, 0, 1, 0, 0, 0]))
     = Inl (ValueError ''Not a valid binary ACE, unpack requires a buffer of 4 bytes'')
   \<and> ACL_from_binary SID_bytes_le (PyBytes [2, 0, 8, 0, 1, 0, 0, 0])
     = Inl (ValueError ''Not a valid binary ACE, unpack requires a buffer of 4 bytes'')"
  by (simp add: decode_eval)

text \<open>
  C3, amended. Let the header of an ACL buffer be read, let the first \<open>k\<close> entries
  decode (each from the cursor the sizes of the earlier ones lead to), with \<open>k\<close> below the
  declared count, and let the next \<^verbatim>\<open>ACE.from_binary\<close> call raise \<open>e\<close>. Then
  \<^verbatim>\<open>ACL.from_binary\<close> raises that same \<open>e\<close>, unchanged: nothing about the ACL is added.
\<close>

theorem C3_ace_failure_propagates_unchanged:
  assumes "8 \<le> length data"
    and "length aces < unat (data ! 4) + 256 * unat (data ! 5)"
    and "\<forall>i<length aces.
           ACE_from_binary S
             (PyBytes (drop (8 + sum_list (map ace_size (take i aces))) data))
             = Inr (aces ! i)"
    and "ACE_from_binary S (PyBytes (drop (8 + sum_list (map ace_size aces)) data)) = Inl e"
  shows "ACL_from_binary S (PyBytes data) = Inl e"
proof -
  define m where "m = unat (data ! 4) + 256 * unat (data ! 5) - Suc (length aces)"
  from assms(2)
  have count: "unat (data ! 4) + 256 * unat (data ! 5) = length aces + Suc m"
    unfolding m_def by linarith
  have pre: "ace_loop S data (length aces) 8 []
               = Inr (aces, 8 + sum_list (map ace_size aces))"
    using ace_loop_decoded_prefix [OF assms(3), of "[]"] by simp
  have step: "ace_loop S data (Suc m) (8 + sum_list (map ace_size aces)) aces = Inl e"
    using assms(4) by (simp add: bind_exc_def)
  have "ace_loop S data (length aces + Suc m) 8 [] = Inl e"
    by (simp only: ace_loop_add [of S data "length aces" "Suc m" 8 "[]"] pre bind_exc_def
          sum.case prod.case step)
  then have "ace_loop S data (unat (data ! 4) + 256 * unat (data ! 5)) 8 [] = Inl e"
    by (simp only: count)
  with assms(1) show ?thesis
    by (simp add: ACL_from_binary_bytes bind_exc_def)
qed

theorem C3_ace_failure_propagates_unchanged_witness:
  "ACE_from_binary SID_bytes_le
     (PyBytes (drop 8 [2, 0, 36, 0, 2, 0, 0, 0,
                       0, 0, 20, 0, 0, 0, 0, 1, 1, 1, 0, 0, 0, 0, 0, 5, 18, 0, 0, 0,
                       99, 0, 8, 0, 0, 0, 0, 1]))
     = Inr \<lparr>ace_type = ACCESS_ALLOWED, ace_flags = {}, ace_mask = 1,
          ace_trustee_sid = \<lparr>revision = 1, identifier_authority = 5, subauthorities = [18]\<rparr>,
          ace_object_type = None, ace_inherited_object_type = None,
          ace_application_data = None, ace_size = 20\<rparr>
   \<and> ACE_from_binary SID_bytes_le
       (PyBytes (drop 28 [2, 0, 36, 0, 2, 0, 0, 0,
                          0, 0, 20, 0, 0, 0, 0, 1, 1, 1, 0, 0, 0, 0, 0, 5, 18, 0, 0, 0,
                          99, 0, 8, 0, 0, 0, 0, 1]))
     = Inl (ValueError ''99 is not a valid ACEType'')
   \<and> ACL_from_binary SID_bytes_le
       (PyBytes [2, 0, 36, 0, 2, 0, 0, 0,
                 0, 0, 20, 0, 0, 0, 0, 1, 1, 1, 0, 0, 0, 0, 0, 5, 18, 0, 0, 0,
                 99, 0, 8, 0, 0, 0, 0, 1])
     = Inl (ValueError ''99 is not a valid ACEType'')"
proof -
  let ?d = "[2, 0, 36, 0, 2, 0, 0, 0,
             0, 0, 20, 0, 0, 0, 0, 1, 1, 1, 0, 0, 0, 0, 0, 5, 18, 0, 0, 0,
             99, 0, 8, 0, 0, 0, 0, 1 :: byte]"
  let ?a = "\<lparr>ace_type = ACCESS_ALLOWED, ace_flags = {}, ace_mask = 1,
          ace_trustee_sid = \<lparr>revision = 1, identifier_authority = 5, subauthorities = [18]\<rparr>,
          ace_object_type = None, ace_inherited_object_type = None,
          ace_application_data = None, ace_size = 20\<rparr>"
  have len: "8 \<le> length ?d" by simp
  have cnt: "length [?a] < unat (?d ! 4) + 256 * unat (?d ! 5)" by simp
  have first: "ACE_from_binary SID_bytes_le (PyBytes (drop 8 ?d)) = Inr ?a"
    by (simp add: decode_eval)
  have second: "ACE_from_binary SID_bytes_le (PyBytes (drop 28 ?d))
                  = Inl (ValueError ''99 is not a valid ACEType'')"
    by (simp add: decode_eval str_nat.simps digit_char_def)
  from first have ok: "\<forall>i<length [?a].
      ACE_from_binary SID_bytes_le
        (PyBytes (drop (8 + sum_list (map ace_size (take i [?a]))) ?d)) = Inr ([?a] ! i)"
    by simp
  from second have bad: "ACE_from_binary SID_bytes_le
      (PyBytes (drop (8 + sum_list (map ace_size [?a])) ?d))
        = Inl (ValueError ''99 is not a valid ACEType'')"
    by simp
  from C3_ace_failure_propagates_unchanged [OF len cnt ok bad] first second
  show ?thesis by simp
qed

subsection \<open>C6: the rights of a mask\<close>

lemma ACERight_members_all: "set ACERight_members = UNIV"
proof -
  have "r \<in> set ACERight_members" for r
    by (cases r) (simp_all add: ACERight_members_def)
  then show ?thesis by blast
qed

lemma ACERight_value_single_bit:
  "ACERight_value rgt = 2 ^
     (case rgt of
        GENERIC_READ \<Rightarrow> 31 | GENERIC_WRITE \<Rightarrow> 26 | GENERIC_EXECUTE \<Rightarrow> 29
      | GENERIC_ALL \<Rightarrow> 28 | MAXIMUM_ALLOWED \<Rightarrow> 25 | ACCESS_SYSTEM_SECURITY \<Rightarrow> 24
      | SYNCHRONIZE \<Rightarrow> 20 | WRITE_OWNER \<Rightarrow> 19 | WRITE_DACL \<Rightarrow> 18 | READ_CONTROL \<Rightarrow> 17
      | DELETE \<Rightarrow> 16 | DS_CONTROL_ACCESS \<Rightarrow> 8 | DS_CREATE_CHILD \<Rightarrow> 0
      | DS_DELETE_CHILD \<Rightarrow> 1 | ACTRL_DS_LIST \<Rightarrow> 2 | DS_SELF \<Rightarrow> 3 | DS_READ_PROP \<Rightarrow> 4
      | DS_WRITE_PROP \<Rightarrow> 5 | DS_DELETE_TREE \<Rightarrow> 6 | DS_LIST_OBJECT \<Rightarrow> 7)"
  by (cases rgt) simp_all

lemma and_power_of_two:
  "(m :: int) AND 2 ^ k \<noteq> 0 \<longleftrightarrow> (\<exists>n. (2 :: int) ^ k = 2 ^ n \<and> bit m n)"
  using bit_iff_and_push_bit_not_eq_0 [of m k]
  by (auto simp: push_bit_eq_mult)

text \<open>
  C6. A right is in \<^verbatim>\<open>rights\<close> exactly when the bit that is its value is set in the mask;
  for the mask \<open>0x80000000\<close> that is \<open>GENERIC_READ\<close> alone.
\<close>

theorem C6_rights_are_set_bits:
  "(\<forall>rgt. rgt \<in> rights ace \<longleftrightarrow> (\<exists>n. ACERight_value rgt = 2 ^ n \<and> bit (ace_mask ace) n))
   \<and> rights (ace\<lparr>ace_mask := 0x80000000\<rparr>) = {GENERIC_READ}"
proof (intro conjI allI)
  fix rgt
  have "rgt \<in> rights ace \<longleftrightarrow> ace_mask ace AND ACERight_value rgt \<noteq> 0"
    by (simp add: rights_def ACERight_members_all)
  then show "rgt \<in> rights ace \<longleftrightarrow> (\<exists>n. ACERight_value rgt = 2 ^ n \<and> bit (ace_mask ace) n)"
    unfolding ACERight_value_single_bit [of rgt] by (simp only: and_power_of_two)
next
  show "rights (ace\<lparr>ace_mask := 0x80000000\<rparr>) = {GENERIC_READ}"
    by (simp add: rights_def ACERight_members_def)
qed

end
